theory Spec2Isabelle
  imports Main "HOL-Library.Word"
begin

unbundle bit_operations_syntax

section \<open>C values used by the sort engine (sort.c)\<close>

text \<open>
  A C \<open>int\<close> is a 32-bit word: \<open>+\<close>, \<open>-\<close> and \<open>*\<close> wrap around, \<open>sint\<close> reads the
  two's-complement value.  A C string is the list of its bytes before the terminating
  NUL; reading \<open>*s\<close> at the end of the string gives the NUL byte.  Plain \<open>char\<close> is
  signed, as on the Linux targets of the program, so a byte is compared through \<open>sint\<close>.
\<close>

type_synonym cint = "32 word"
type_synonym cchar = "8 word"

definition INT_MIN :: int where
  "INT_MIN = - (2 ^ 31)"

definition LLONG_MAX :: int where
  "LLONG_MAX = 2 ^ 63 - 1"

definition deref :: "string \<Rightarrow> cchar" where
  "deref s = (case s of [] \<Rightarrow> 0 | c # _ \<Rightarrow> of_char c)"

text \<open>
  Modelled from the spec: the character macros \<open>IS_DIGIT\<close>, \<open>IS_ALPHA\<close> and \<open>TOUPPER\<close>
  of helpers.h, which is not among the sources.  \<open>IS_DIGIT\<close> holds of the ASCII decimal
  digits, \<open>IS_ALPHA\<close> of the ASCII lower-case letters (sort.c tests the upper-case
  range itself, next to it), and \<open>TOUPPER\<close> maps a lower-case ASCII letter to its
  upper-case letter and leaves every other byte alone.
\<close>

definition IS_DIGIT :: "cchar \<Rightarrow> bool" where
  "IS_DIGIT c = (48 \<le> sint c \<and> sint c \<le> 57)"

definition IS_ALPHA :: "cchar \<Rightarrow> bool" where
  "IS_ALPHA c = (97 \<le> sint c \<and> sint c \<le> 122)"

definition TOUPPER :: "cchar \<Rightarrow> cchar" where
  "TOUPPER ch = (if 97 \<le> sint ch \<and> sint ch \<le> 122 then ch - 97 + 65 else ch)"

subsection \<open>The C library functions sort.c calls\<close>

text \<open>
  \<open>strcmp\<close> compares byte by byte, as unsigned bytes, and returns the difference of
  the first two bytes that differ (the end of a string reads as 0).
\<close>

fun strcmp :: "string \<Rightarrow> string \<Rightarrow> cint" where
  "strcmp [] [] = 0"
| "strcmp [] (b # bs) = 0 - of_char b"
| "strcmp (a # as) [] = of_char a"
| "strcmp (a # as) (b # bs) =
     (if a = b then strcmp as bs else of_char a - of_char b)"

text \<open>\<open>tolower\<close> in the C locale, on a byte.\<close>

definition tolower_c :: "char \<Rightarrow> nat" where
  "tolower_c c = (let n = of_char c in if 65 \<le> n \<and> n \<le> 90 then n + 32 else n)"

text \<open>\<open>strcasecmp\<close>: as \<open>strcmp\<close>, on the lower-cased bytes.\<close>

fun strcasecmp :: "string \<Rightarrow> string \<Rightarrow> cint" where
  "strcasecmp [] [] = 0"
| "strcasecmp [] (b # bs) = 0 - of_nat (tolower_c b)"
| "strcasecmp (a # as) [] = of_nat (tolower_c a)"
| "strcasecmp (a # as) (b # bs) =
     (if tolower_c a = tolower_c b then strcasecmp as bs
      else of_nat (tolower_c a) - of_nat (tolower_c b))"

text \<open>
  \<open>strrchr s c\<close>: the offset of the last occurrence of \<open>c\<close> in \<open>s\<close>, \<open>None\<close> for the
  NULL pointer.
\<close>

fun strrchr :: "string \<Rightarrow> char \<Rightarrow> nat option" where
  "strrchr [] c = None"
| "strrchr (x # xs) c =
     (case strrchr xs c of
        Some i \<Rightarrow> Some (Suc i)
      | None \<Rightarrow> if x = c then Some 0 else None)"

text \<open>
  \<open>strtoll s NULL 10\<close> on a string that starts with a digit (the only way namecmp calls
  it): the value of the leading run of decimal digits, clamped to \<open>LLONG_MAX\<close>.
\<close>

definition digit_run :: "string \<Rightarrow> string" where
  "digit_run s = takeWhile (\<lambda>c. IS_DIGIT (of_char c)) s"

definition strtoll :: "string \<Rightarrow> int" where
  "strtoll s =
     min (foldl (\<lambda>n c. n * 10 + (int (of_char c) - 48)) 0 (digit_run s)) LLONG_MAX"

text \<open>
  The locale's collation \<open>strcoll\<close> and the program's own version comparator
  \<open>xstrverscmp\<close> (strings.c, not among the sources) are parameters of the model: any
  two functions returning a C \<open>int\<close>.
\<close>

record sort_env =
  strcoll :: "string \<Rightarrow> string \<Rightarrow> cint"
  xstrverscmp :: "string \<Rightarrow> string \<Rightarrow> cint"

subsection \<open>Entries and configuration\<close>

text \<open>
  The fields of \<open>struct fileinfo\<close> that the comparators read: \<open>size\<close> is an \<open>off_t\<close>
  and \<open>time\<close> a \<open>time_t\<close> (signed, 64 bits), \<open>inode\<close> an \<open>ino_t\<close> (unsigned, 64 bits),
  \<open>uid\<close> and \<open>gid\<close> unsigned 32-bit values, \<open>dir\<close> an \<open>int\<close> flag.
\<close>

record fileinfo =
  name :: string
  dir :: cint
  size_st :: "64 word"
  time :: "64 word"
  inode :: "64 word"
  uid :: "32 word"
  gid :: "32 word"

datatype sort_key =
  SNONE | SNAME | STSIZE | SATIME | SBTIME | SCTIME | SMTIME | SVER | SEXT | SINO
  | SOWN | SGRP

text \<open>The fields of the global \<open>conf\<close> that the comparators read.\<close>

record config =
  sort_cf :: sort_key
  sort_reverse :: int
  list_dirs_first :: int
  light_mode :: int
  case_sens_list :: int

section \<open>The comparators of sort.c\<close>

fun skip_loop :: "string \<Rightarrow> string" where
  "skip_loop [] = []"
| "skip_loop (c # cs) =
     (if \<not> IS_DIGIT (of_char c) \<and> \<not> IS_ALPHA (of_char c)
         \<and> (sint (of_char c :: cchar) < 65 \<or> sint (of_char c :: cchar) > 90)
      then skip_loop cs else c # cs)"

definition skip_name_prefixes :: "string \<Rightarrow> string" where
  "skip_name_prefixes nm = (let s = skip_loop nm in if s = [] then nm else s)"

text \<open>
  \<open>compare_strings\<close>: the two bodies selected by the build flag \<open>HAVE_STRCOLL\<close>.
\<close>

definition compare_strings :: "bool \<Rightarrow> sort_env \<Rightarrow> string \<Rightarrow> string \<Rightarrow> cint" where
  "compare_strings have_strcoll env s1 s2 =
     (if have_strcoll then strcoll env s2 s2
      else
        (let ret = (scast (deref s1) :: cint) - scast (deref s2)
         in if ret = 0 then strcmp s1 s2 else ret))"

definition unicode_lead :: "cchar \<Rightarrow> bool" where
  "unicode_lead c = (c AND 0xc0 = 0xc0)"

definition namecmp :: "sort_env \<Rightarrow> config \<Rightarrow> string \<Rightarrow> string \<Rightarrow> cint" where
  "namecmp env cf n1 n2 =
     (let s1 = skip_name_prefixes n1;
          s2 = skip_name_prefixes n2;
          both_digits = IS_DIGIT (deref s1) \<and> IS_DIGIT (deref s2);
          v1 = strtoll s1;
          v2 = strtoll s2
      in if both_digits \<and> v2 > v1 then - 1
         else if both_digits \<and> v2 < v1 then 1
         else
           (let ascii = \<not> unicode_lead (deref s1) \<and> \<not> unicode_lead (deref s2);
                ac = (if case_sens_list cf = 0 then TOUPPER (deref s1) else deref s1);
                bc = (if case_sens_list cf = 0 then TOUPPER (deref s2) else deref s2)
            in if ascii \<and> sint bc > sint ac then - 1
               else if ascii \<and> sint bc < sint ac then 1
               else if case_sens_list cf = 0 \<or> unicode_lead (deref s1)
                       \<or> unicode_lead (deref s2)
               then strcoll env s1 s2
               else strcmp s1 s2))"

definition sort_by_size :: "fileinfo \<Rightarrow> fileinfo \<Rightarrow> cint" where
  "sort_by_size pa pb =
     (if sint (size_st pa) > sint (size_st pb) then 1
      else if sint (size_st pa) < sint (size_st pb) then - 1
      else 0)"

text \<open>The extension of a name: what follows its last dot, unless that dot is its first byte.\<close>

definition ext_of :: "string \<Rightarrow> string option" where
  "ext_of n =
     (case strrchr n (CHR ''.'') of
        None \<Rightarrow> None
      | Some i \<Rightarrow> if i \<noteq> 0 then Some (drop (Suc i) n) else None)"

definition sort_by_extension :: "string \<Rightarrow> string \<Rightarrow> cint" where
  "sort_by_extension n1 n2 =
     (case (ext_of n1, ext_of n2) of
        (None, None) \<Rightarrow> 0
      | (None, Some bext) \<Rightarrow> - 1
      | (Some aext, None) \<Rightarrow> 1
      | (Some aext, Some bext) \<Rightarrow> strcasecmp aext bext)"

definition sort_by_time :: "64 word \<Rightarrow> 64 word \<Rightarrow> cint" where
  "sort_by_time a b = (if sint a > sint b then 1 else if sint a < sint b then - 1 else 0)"

definition sort_by_inode :: "64 word \<Rightarrow> 64 word \<Rightarrow> cint" where
  "sort_by_inode a b = (if a > b then 1 else if a < b then - 1 else 0)"

definition sort_by_owner :: "32 word \<Rightarrow> 32 word \<Rightarrow> cint" where
  "sort_by_owner a b = (if a > b then 1 else if a < b then - 1 else 0)"

definition sort_by_group :: "32 word \<Rightarrow> 32 word \<Rightarrow> cint" where
  "sort_by_group a b = (if a > b then 1 else if a < b then - 1 else 0)"

definition sort_dirs :: "cint \<Rightarrow> cint \<Rightarrow> cint" where
  "sort_dirs a b = (if b \<noteq> a then (if b \<noteq> 0 then 1 else - 1) else 0)"

text \<open>The key comparator selected by the \<open>switch\<close> of entrycmp.\<close>

definition key_cmp :: "sort_env \<Rightarrow> sort_key \<Rightarrow> fileinfo \<Rightarrow> fileinfo \<Rightarrow> cint" where
  "key_cmp env st pa pb =
     (case st of
        STSIZE \<Rightarrow> sort_by_size pa pb
      | SATIME \<Rightarrow> sort_by_time (time pa) (time pb)
      | SBTIME \<Rightarrow> sort_by_time (time pa) (time pb)
      | SCTIME \<Rightarrow> sort_by_time (time pa) (time pb)
      | SMTIME \<Rightarrow> sort_by_time (time pa) (time pb)
      | SVER \<Rightarrow> xstrverscmp env (name pa) (name pb)
      | SEXT \<Rightarrow> sort_by_extension (name pa) (name pb)
      | SINO \<Rightarrow> sort_by_inode (inode pa) (inode pb)
      | SOWN \<Rightarrow> sort_by_owner (uid pa) (uid pb)
      | SGRP \<Rightarrow> sort_by_group (gid pa) (gid pb)
      | _ \<Rightarrow> 0)"

definition entrycmp :: "sort_env \<Rightarrow> config \<Rightarrow> fileinfo \<Rightarrow> fileinfo \<Rightarrow> cint" where
  "entrycmp env cf pa pb =
     (let d = (if list_dirs_first cf = 1 then sort_dirs (dir pa) (dir pb) else 0)
      in if d \<noteq> 0 then d
         else
           (let st = (if light_mode cf = 1 \<and> (sort_cf cf = SOWN \<or> sort_cf cf = SGRP)
                      then SNAME else sort_cf cf);
                k = key_cmp env st pa pb;
                ret = (if k = 0 then namecmp env cf (name pa) (name pb) else k)
            in if sort_reverse cf = 0 then ret else ret - (ret * 2)))"


section \<open>The file system seen by the trash manager (trash.c)\<close>

text \<open>
  The trash manager works on the file system through system calls and two external
  commands.  The model keeps what the claims are about: which path names hold a file and
  what bytes it has (\<open>nodes\<close>; a directory tree that is trashed or restored is one
  node, whatever lies below it moves with it), the working directory and \<open>errno\<close>.
  Whether a call fails for a reason outside that state (permissions, another device, a
  full disk) is decided by the environment, a record of functions; every theorem holds
  for every environment.  Path names are shorter than \<open>PATH_MAX\<close> and string lengths
  fit an \<open>int\<close>.
\<close>

type_synonym path = string

text \<open>The error numbers, with their Linux values; none is zero.\<close>

datatype errno_t =
  EPERM | ENOENT | EIO | EACCES | EEXIST | EXDEV | ENOTDIR | EINVAL | ENOSPC | EROFS

fun errno_val :: "errno_t \<Rightarrow> cint" where
  "errno_val EPERM = 1"
| "errno_val ENOENT = 2"
| "errno_val EIO = 5"
| "errno_val EACCES = 13"
| "errno_val EEXIST = 17"
| "errno_val EXDEV = 18"
| "errno_val ENOTDIR = 20"
| "errno_val EINVAL = 22"
| "errno_val ENOSPC = 28"
| "errno_val EROFS = 30"

definition EXIT_SUCCESS :: cint where
  "EXIT_SUCCESS = 0"

definition EXIT_FAILURE :: cint where
  "EXIT_FAILURE = 1"

text \<open>\<open>NAME_MAX\<close> of limits.h; the comment in trash\_file gives its value.\<close>

definition NAME_MAX :: nat where
  "NAME_MAX = 255"

record fsys =
  nodes :: "path \<rightharpoonup> string"
  cwd :: path
  errno :: cint

text \<open>The two command lines trash.c runs: \<open>rm -rf -- ...\<close> and \<open>mv -- old new\<close>.\<close>

datatype command = Rm "path list" | Mv path path

text \<open>The fields of \<open>struct tm\<close> that trash\_file prints.\<close>

record tm =
  tm_year :: int
  tm_mon :: int
  tm_mday :: int
  tm_hour :: int
  tm_min :: int
  tm_sec :: int

text \<open>
  The globals trash.c reads (\<open>trash_files_dir\<close>, \<open>trash_info_dir\<close>,
  \<open>workspaces[cur_ws].path\<close>, which may be NULL) and what the environment decides:
  the error of a \<open>chdir\<close>, \<open>rename\<close>, \<open>open\<close> or \<open>access\<close> call (\<open>None\<close> where
  it succeeds), the names \<open>scandir\<close> returns after \<open>skip_files\<close> and the sort
  (\<open>None\<close> where it returns \<open>-1\<close>), the exit status of a command, the verdict of the
  permission walk of wx\_parent\_check (which only reads the file system), and the
  percent-encoding functions of aux.c, which are not among the sources (\<open>None\<close> for
  the NULL pointer).
\<close>

record trash_env =
  trash_files_dir :: path
  trash_info_dir :: path
  workspace_path :: "path option"
  chdir_errno :: "path \<Rightarrow> errno_t option"
  scandir_names :: "fsys \<Rightarrow> path \<Rightarrow> string list option"
  rename_errno :: "path \<Rightarrow> path \<Rightarrow> errno_t option"
  exec_status :: "command \<Rightarrow> cint"
  open_errno :: "path \<Rightarrow> errno_t option"
  access_errno :: "path \<Rightarrow> errno_t option"
  preflight :: "path \<Rightarrow> cint"
  url_encode :: "string \<Rightarrow> string option"
  url_decode :: "string \<Rightarrow> string option"

text \<open>A relative path name is looked up from the working directory.\<close>

definition resolve :: "fsys \<Rightarrow> path \<Rightarrow> path" where
  "resolve fs p = (if deref p = 47 then p else cwd fs @ ''/'' @ p)"

text \<open>
  Modelled from the spec: \<open>xchdir\<close> of navigation.c, which is not among the sources:
  it changes the working directory and returns \<open>-1\<close> where it cannot (also for a NULL
  path).
\<close>

definition xchdir :: "trash_env \<Rightarrow> path option \<Rightarrow> fsys \<Rightarrow> cint \<times> fsys" where
  "xchdir env d fs =
     (case d of
        None \<Rightarrow> (- 1, fs\<lparr>errno := errno_val EINVAL\<rparr>)
      | Some p \<Rightarrow>
          (case chdir_errno env p of
             Some e \<Rightarrow> (- 1, fs\<lparr>errno := errno_val e\<rparr>)
           | None \<Rightarrow> (0, fs\<lparr>cwd := resolve fs p\<rparr>)))"

text \<open>\<open>stat\<close> and \<open>lstat\<close> (the model has no symbolic links): \<open>-1\<close> where no file is there.\<close>

definition stat_c :: "fsys \<Rightarrow> path \<Rightarrow> cint \<times> fsys" where
  "stat_c fs p =
     (if nodes fs (resolve fs p) = None then (- 1, fs\<lparr>errno := errno_val ENOENT\<rparr>)
      else (0, fs))"

definition renameat :: "trash_env \<Rightarrow> path \<Rightarrow> path \<Rightarrow> fsys \<Rightarrow> cint \<times> fsys" where
  "renameat env old new fs =
     (case nodes fs (resolve fs old) of
        None \<Rightarrow> (- 1, fs\<lparr>errno := errno_val ENOENT\<rparr>)
      | Some body \<Rightarrow>
          (case rename_errno env (resolve fs old) (resolve fs new) of
             Some e \<Rightarrow> (- 1, fs\<lparr>errno := errno_val e\<rparr>)
           | None \<Rightarrow>
               (0, fs\<lparr>nodes := (nodes fs)(resolve fs old := None, resolve fs new \<mapsto> body)\<rparr>)))"

text \<open>
  Modelled from the spec: \<open>launch_execv\<close> of exec.c, which is not among the sources:
  it runs the command in the foreground and returns its exit status.  With status zero
  \<open>rm -rf\<close> has removed every path it was given and \<open>mv\<close> has moved the file; with
  another status the model leaves the file system as it was.
\<close>

definition launch_execv :: "trash_env \<Rightarrow> command \<Rightarrow> fsys \<Rightarrow> cint \<times> fsys" where
  "launch_execv env cmd fs =
     (if exec_status env cmd \<noteq> 0 then (exec_status env cmd, fs)
      else
        (case cmd of
           Rm ps \<Rightarrow>
             (0, fs\<lparr>nodes := (\<lambda>p. if p \<in> set (map (resolve fs) ps) then None else nodes fs p)\<rparr>)
         | Mv old new \<Rightarrow>
             (case nodes fs (resolve fs old) of
                None \<Rightarrow> (0, fs)
              | Some body \<Rightarrow>
                  (0, fs\<lparr>nodes := (nodes fs)(resolve fs old := None,
                                               resolve fs new \<mapsto> body)\<rparr>))))"

text \<open>
  Modelled from the spec: \<open>open_fwrite\<close> of aux.c, which is not among the sources: it
  opens the sidecar for writing, creating it empty, and returns NULL (\<open>False\<close>) where it
  cannot.  \<open>fprintf\<close> appends to the file.
\<close>

definition open_fwrite :: "trash_env \<Rightarrow> path \<Rightarrow> fsys \<Rightarrow> bool \<times> fsys" where
  "open_fwrite env p fs =
     (case open_errno env p of
        Some e \<Rightarrow> (False, fs\<lparr>errno := errno_val e\<rparr>)
      | None \<Rightarrow> (True, fs\<lparr>nodes := (nodes fs)(resolve fs p \<mapsto> [])\<rparr>))"

definition fprintf :: "path \<Rightarrow> string \<Rightarrow> fsys \<Rightarrow> fsys" where
  "fprintf p txt fs =
     fs\<lparr>nodes := (nodes fs)(resolve fs p \<mapsto> (case nodes fs (resolve fs p) of
                                                  None \<Rightarrow> txt | Some old \<Rightarrow> old @ txt))\<rparr>"

text \<open>What \<open>%d\<close> prints: the decimal digits, no padding, a sign where negative.\<close>

definition dec_digit :: "nat \<Rightarrow> char" where
  "dec_digit d = ''0123456789'' ! d"

fun dec_nat :: "nat \<Rightarrow> string" where
  "dec_nat n =
     (if n < 10 then [dec_digit n] else dec_nat (n div 10) @ [dec_digit (n mod 10)])"

declare dec_nat.simps [simp del]

definition printf_d :: "int \<Rightarrow> string" where
  "printf_d i = (if i < 0 then CHR ''-'' # dec_nat (nat (- i)) else dec_nat (nat i))"

definition NL :: char where
  "NL = CHR 0x0A"

text \<open>The text trash\_file prints into the sidecar.\<close>

definition info_text :: "string \<Rightarrow> tm \<Rightarrow> string" where
  "info_text url_str t =
     ''[Trash Info]'' @ [NL] @ ''Path='' @ url_str @ [NL] @ ''DeletionDate=''
     @ printf_d (tm_year t + 1900) @ ''-'' @ printf_d (tm_mon t + 1) @ ''-''
     @ printf_d (tm_mday t) @ ''T'' @ printf_d (tm_hour t) @ '':'' @ printf_d (tm_min t)
     @ '':'' @ printf_d (tm_sec t) @ [NL]"

subsection \<open>Moving a file to the trash can\<close>

text \<open>
  wx\_parent\_check cuts a trailing slash off its argument, in place, before the
  permission walk, whose verdict the environment gives.
\<close>

definition wx_parent_check :: "trash_env \<Rightarrow> path \<Rightarrow> cint \<times> path" where
  "wx_parent_check env file =
     (let file' = (if file \<noteq> [] \<and> last file = CHR ''/'' then butlast file else file)
      in (preflight env file', file'))"

text \<open>
  \<open>strrchr(tmpfile, '/')\<close> and the step over the slash: the directory part, with its
  slash, and the file name, which must not be empty.
\<close>

definition split_name :: "path \<Rightarrow> (path \<times> string) option" where
  "split_name p =
     (case strrchr p (CHR ''/'') of
        None \<Rightarrow> None
      | Some i \<Rightarrow> if drop (Suc i) p = [] then None else Some (take (Suc i) p, drop (Suc i) p))"

text \<open>
  The truncation of the file name.  The two bytes are written at the offsets
  \<open>filename_len - size - 1\<close> and \<open>filename_len - size\<close>; an offset below zero is a
  write outside the name: undefined behaviour, \<open>None\<close>.
\<close>

definition trim_filename :: "string \<Rightarrow> string \<Rightarrow> string option" where
  "trim_filename filename suffix =
     (let filename_len = length filename;
          suffix_len = length suffix;
          size = int (filename_len + suffix_len + 11) - int NAME_MAX
      in if size > 0
         then (if int filename_len - size - 1 < 0 then None
               else Some (take (nat (int filename_len - size - 1)) filename @ ''~''))
         else Some filename)"

definition del_trash_file_and_exit :: "trash_env \<Rightarrow> string \<Rightarrow> fsys \<Rightarrow> cint \<times> fsys" where
  "del_trash_file_and_exit env file_suffix fs =
     launch_execv env (Rm [trash_files_dir env @ ''/'' @ file_suffix]) fs"

text \<open>
  The first part of trash\_file, up to the trashed name.  \<open>filename\<close> points into
  \<open>tmpfile\<close>, and \<open>tmpfile\<close> is \<open>file\<close> itself where \<open>file\<close> is absolute, so the
  truncation (and the cut of wx\_parent\_check) changes these strings too.  The
  result is \<open>Inl\<close> of the status returned early, or \<open>Inr\<close> of \<open>file\<close>, \<open>tmpfile\<close> and
  \<open>file_suffix\<close> as they are after the truncation.
\<close>

definition trash_prepare ::
  "trash_env \<Rightarrow> string \<Rightarrow> path \<Rightarrow> (cint + path \<times> path \<times> string) option" where
  "trash_prepare env suffix file =
     (case (if deref file \<noteq> 47
            then map_option (\<lambda>w. w @ ''/'' @ file) (workspace_path env)
            else Some file) of
        None \<Rightarrow> Some (Inl EXIT_FAILURE)
      | Some tmpfile0 \<Rightarrow>
          (case wx_parent_check env tmpfile0 of
             (wx, tmpfile1) \<Rightarrow>
               if wx \<noteq> 0 then Some (Inl EXIT_FAILURE)
               else
                 (case split_name tmpfile1 of
                    None \<Rightarrow> Some (Inl EXIT_FAILURE)
                  | Some (dirpart, filename) \<Rightarrow>
                      (case trim_filename filename suffix of
                         None \<Rightarrow> None
                       | Some trimmed \<Rightarrow>
                           Some (Inr (if deref file \<noteq> 47 then file else dirpart @ trimmed,
                                      dirpart @ trimmed,
                                      trimmed @ ''.'' @ suffix))))))"


text \<open>The move into \<open>files/\<close>: \<open>renameat\<close>, and \<open>mv\<close> where that fails with \<open>EXDEV\<close>.\<close>

definition trash_move :: "trash_env \<Rightarrow> path \<Rightarrow> path \<Rightarrow> fsys \<Rightarrow> cint \<times> fsys" where
  "trash_move env file dest fs =
     (case renameat env file dest fs of
        (ret, fs1) \<Rightarrow>
          if ret \<noteq> EXIT_SUCCESS \<and> errno fs1 = errno_val EXDEV
          then launch_execv env (Mv file dest) fs1
          else (ret, fs1))"

text \<open>The last part of trash\_file: generating the info file.\<close>

definition trash_info :: "trash_env \<Rightarrow> string \<Rightarrow> path \<Rightarrow> tm \<Rightarrow> fsys \<Rightarrow> cint \<times> fsys" where
  "trash_info env file_suffix tmpfile t fs =
     (let info_file = trash_info_dir env @ ''/'' @ file_suffix @ ''.trashinfo''
      in case open_fwrite env info_file fs of
           (False, fs1) \<Rightarrow> del_trash_file_and_exit env file_suffix fs1
         | (True, fs1) \<Rightarrow>
             (case url_encode env tmpfile of
                None \<Rightarrow> (EXIT_FAILURE, fs1)
              | Some url_str \<Rightarrow> (EXIT_SUCCESS, fprintf info_file (info_text url_str t) fs1)))"

definition trash_file ::
  "trash_env \<Rightarrow> string \<Rightarrow> tm \<Rightarrow> path \<Rightarrow> fsys \<Rightarrow> (cint \<times> fsys) option" where
  "trash_file env suffix t file fs =
     (case stat_c fs file of
        (st, fs0) \<Rightarrow>
          if st = - 1 then Some (errno fs0, fs0)
          else
            (case trash_prepare env suffix file of
               None \<Rightarrow> None
             | Some (Inl status) \<Rightarrow> Some (status, fs0)
             | Some (Inr (file', tmpfile, file_suffix)) \<Rightarrow>
                 (case trash_move env file' (trash_files_dir env @ ''/'' @ file_suffix) fs0 of
                    (ret, fs1) \<Rightarrow>
                      if ret \<noteq> EXIT_SUCCESS then Some (errno fs1, fs1)
                      else Some (trash_info env file_suffix tmpfile t fs1))))"

subsection \<open>Restoring from the trash can\<close>

text \<open>
  The chunks \<open>fgets\<close> returns for a text: its lines, each with its newline (the buffer of
  untrash\_file holds a line of \<open>PATH_MAX + 5\<close> bytes; longer lines are not modelled).
\<close>

fun fgets_lines :: "string \<Rightarrow> string list" where
  "fgets_lines [] = []"
| "fgets_lines (c # cs) =
     (if c = NL then [c] # fgets_lines cs
      else (case fgets_lines cs of [] \<Rightarrow> [c] # [] | l # ls \<Rightarrow> (c # l) # ls))"

text \<open>
  The \<open>while (fgets ...)\<close> loop of untrash\_file: the value of the last \<open>Path=\<close> line;
  a \<open>Path=\<close> line with nothing after the \<open>=\<close> ends the loop.
\<close>

fun scan_path :: "string list \<Rightarrow> string option \<Rightarrow> string option" where
  "scan_path [] orig_path = orig_path"
| "scan_path (line # rest) orig_path =
     (if take 5 line = ''Path=''
      then (if drop 5 line = [] then orig_path else scan_path rest (Some (drop 5 line)))
      else scan_path rest orig_path)"

text \<open>
  Modelled from the spec: \<open>strbfrlst\<close> of strings.c, which is not among the sources;
  the comments at its two call sites say what it returns: the part of the string before
  the last occurrence of the byte, and NULL where nothing comes before it.
\<close>

definition strbfrlst :: "string \<Rightarrow> char \<Rightarrow> string option" where
  "strbfrlst s c =
     (case strrchr s c of
        None \<Rightarrow> None
      | Some i \<Rightarrow> if i = 0 then None else Some (take i s))"

text \<open>
  The parent directory untrash\_file checks: the part before the last slash, or \<open>/\<close>
  for a file in the root directory (\<open>strcntchr\<close> returns \<open>-1\<close> where the byte does not
  occur).
\<close>

definition parent_of :: "path \<Rightarrow> path option" where
  "parent_of p =
     (case strbfrlst p (CHR ''/'') of
        Some parent \<Rightarrow> Some parent
      | None \<Rightarrow>
          if deref p = 47 \<and> CHR ''/'' \<notin> set (tl p) then Some ''/'' else None)"

text \<open>The end of untrash\_file: removing the sidecar.\<close>

definition rm_info :: "trash_env \<Rightarrow> path \<Rightarrow> fsys \<Rightarrow> cint \<times> fsys" where
  "rm_info env undel_info fs =
     (case launch_execv env (Rm [undel_info]) fs of
        (ret, fs1) \<Rightarrow> if ret \<noteq> EXIT_SUCCESS then (ret, fs1) else (EXIT_SUCCESS, fs1))"

text \<open>The move back, \<open>renameat\<close> or \<open>mv\<close>, followed by the removal of the sidecar.\<close>

definition untrash_move :: "trash_env \<Rightarrow> path \<Rightarrow> path \<Rightarrow> path \<Rightarrow> fsys \<Rightarrow> cint \<times> fsys" where
  "untrash_move env undel_file undel_info url_decoded fs =
     (case renameat env undel_file url_decoded fs of
        (ret, fs1) \<Rightarrow>
          if ret = - 1
          then (if errno fs1 = errno_val EXDEV
                then (case launch_execv env (Mv undel_file url_decoded) fs1 of
                        (ret2, fs2) \<Rightarrow>
                          if ret2 \<noteq> EXIT_SUCCESS then (ret2, fs2)
                          else rm_info env undel_info fs2)
                else (errno fs1, fs1))
          else rm_info env undel_info fs1)"

text \<open>
  The original path a sidecar text gives: the \<open>Path=\<close> value, without its newline,
  percent-decoded.  \<open>Inl\<close> is the status untrash\_file returns where it gives none.
\<close>

definition orig_path_of :: "trash_env \<Rightarrow> string \<Rightarrow> cint + path" where
  "orig_path_of env txt =
     (case scan_path (fgets_lines txt) None of
        None \<Rightarrow> Inl EXIT_FAILURE
      | Some p \<Rightarrow>
          if p = [] then Inl EXIT_FAILURE
          else
            (case url_decode env (if last p = NL then butlast p else p) of
               None \<Rightarrow> Inl EXIT_FAILURE
             | Some url_decoded \<Rightarrow> Inr url_decoded))"

text \<open>untrash\_file; its argument may be the NULL pointer (\<open>None\<close>).\<close>

definition untrash_file :: "trash_env \<Rightarrow> string option \<Rightarrow> fsys \<Rightarrow> cint \<times> fsys" where
  "untrash_file env file_opt fs =
     (case file_opt of
        None \<Rightarrow> (EXIT_FAILURE, fs)
      | Some file \<Rightarrow>
          (let undel_file = trash_files_dir env @ ''/'' @ file;
               undel_info = trash_info_dir env @ ''/'' @ file @ ''.trashinfo''
           in case nodes fs (resolve fs undel_info) of
                None \<Rightarrow> (errno_val ENOENT, fs\<lparr>errno := errno_val ENOENT\<rparr>)
              | Some txt \<Rightarrow>
                  (case orig_path_of env txt of
                     Inl status \<Rightarrow> (status, fs)
                   | Inr url_decoded \<Rightarrow>
                       (case parent_of url_decoded of
                          None \<Rightarrow> (EXIT_FAILURE, fs)
                        | Some parent \<Rightarrow>
                            (case access_errno env parent of
                               Some e \<Rightarrow> (errno_val e, fs\<lparr>errno := errno_val e\<rparr>)
                             | None \<Rightarrow>
                                 (case stat_c fs url_decoded of
                                    (st, fs0) \<Rightarrow>
                                      if st \<noteq> - 1 then (errno_val EEXIST, fs)
                                      else untrash_move env undel_file undel_info
                                             url_decoded fs0))))))"

subsection \<open>Emptying and listing the trash can\<close>

text \<open>
  The loop of trash\_clear over the scanned names; the state is \<open>ret\<close> (the status of
  the last removal), \<open>exit_status\<close> and the file system.
\<close>

fun clear_loop ::
  "trash_env \<Rightarrow> string list \<Rightarrow> cint \<times> cint \<times> fsys \<Rightarrow> cint \<times> cint \<times> fsys" where
  "clear_loop env [] st = st"
| "clear_loop env (d_name # rest) (ret, exit_status, fs) =
     (let info_file = d_name @ ''.trashinfo'';
          file1 = trash_files_dir env @ ''/'' @ d_name;
          file2 = trash_info_dir env @ ''/'' @ info_file
      in case launch_execv env (Rm [file1, file2]) fs of
           (r, fs1) \<Rightarrow>
             clear_loop env rest (r, if r \<noteq> EXIT_SUCCESS then r else exit_status, fs1))"

text \<open>
  trash\_clear.  Where \<open>scandir\<close> fails, \<open>files_n\<close> is \<open>-1\<close>, the loop bound
  \<open>(size_t)files_n\<close> is the largest \<open>size_t\<close> and the first pass reads the NULL list:
  undefined behaviour, \<open>None\<close>.
\<close>

definition trash_clear :: "trash_env \<Rightarrow> fsys \<Rightarrow> (cint \<times> fsys) option" where
  "trash_clear env fs =
     (case xchdir env (Some (trash_files_dir env)) fs of
        (c, fs1) \<Rightarrow>
          if c = - 1 then Some (EXIT_FAILURE, fs1)
          else
            (case scandir_names env fs1 (trash_files_dir env) of
               None \<Rightarrow> None
             | Some [] \<Rightarrow> Some (EXIT_SUCCESS, fs1)
             | Some (n # ns) \<Rightarrow>
                 (case clear_loop env (n # ns) (EXIT_SUCCESS, EXIT_SUCCESS, fs1) of
                    (ret, exit_status, fs2) \<Rightarrow>
                      (case xchdir env (workspace_path env) fs2 of
                         (c2, fs3) \<Rightarrow>
                           if c2 = - 1 then Some (EXIT_FAILURE, fs3)
                           else Some (exit_status, fs3)))))"

text \<open>list\_trashed\_files; what it prints is not modelled.\<close>

definition list_trashed_files :: "trash_env \<Rightarrow> fsys \<Rightarrow> cint \<times> fsys" where
  "list_trashed_files env fs =
     (case xchdir env (Some (trash_files_dir env)) fs of
        (c, fs1) \<Rightarrow>
          if c = - 1 then (EXIT_FAILURE, fs1)
          else
            (case scandir_names env fs1 (trash_files_dir env) of
               None \<Rightarrow> (EXIT_FAILURE, fs1)
             | Some [] \<Rightarrow> (- 1, fs1)
             | Some (n # ns) \<Rightarrow>
                 (case xchdir env (workspace_path env) fs1 of
                    (c2, fs2) \<Rightarrow>
                      if c2 = - 1 then (EXIT_FAILURE, fs2) else (EXIT_SUCCESS, fs2))))"

subsection \<open>Concrete environments and entries\<close>

text \<open>The C locale, where \<open>strcoll\<close> is \<open>strcmp\<close>; the version comparator is byte-wise.\<close>

definition posix_env :: sort_env where
  "posix_env = \<lparr> strcoll = strcmp, xstrverscmp = strcmp \<rparr>"

text \<open>
  A collation that orders strings as \<open>strcmp\<close> does and reports the order with the
  extreme \<open>int\<close> values: ISO C fixes only the sign of what \<open>strcoll\<close> returns.
\<close>

definition extreme_coll :: "string \<Rightarrow> string \<Rightarrow> cint" where
  "extreme_coll a b =
     (if sint (strcmp a b) < 0 then - 2147483648
      else if sint (strcmp a b) > 0 then 2147483647 else 0)"

definition extreme_env :: sort_env where
  "extreme_env = \<lparr> strcoll = extreme_coll, xstrverscmp = strcmp \<rparr>"

definition by_name :: config where
  "by_name = \<lparr> sort_cf = SNAME, sort_reverse = 0, list_dirs_first = 1, light_mode = 0,
               case_sens_list = 0 \<rparr>"

definition by_ext :: config where
  "by_ext = by_name\<lparr>sort_cf := SEXT\<rparr>"

definition case_sens :: config where
  "case_sens = by_name\<lparr>case_sens_list := 1\<rparr>"

definition entry :: "string \<Rightarrow> cint \<Rightarrow> fileinfo" where
  "entry n d = \<lparr> name = n, dir = d, size_st = 0, time = 0, inode = 0, uid = 0, gid = 0 \<rparr>"

text \<open>
  A trash can under \<open>/t\<close>, a workspace \<open>/home/u\<close> and an environment where every call
  succeeds, the trash can is empty and the paths need no percent-encoding.
\<close>

definition demo_env :: trash_env where
  "demo_env =
     \<lparr> trash_files_dir = ''/t/files'', trash_info_dir = ''/t/info'',
       workspace_path = Some ''/home/u'',
       chdir_errno = (\<lambda>p. None), scandir_names = (\<lambda>fs p. Some []),
       rename_errno = (\<lambda>old new. None), exec_status = (\<lambda>cmd. 0),
       open_errno = (\<lambda>p. None), access_errno = (\<lambda>p. None),
       preflight = (\<lambda>p. 0), url_encode = Some, url_decode = Some \<rparr>"

text \<open>The same, where no sidecar can be opened; and where, besides, no command succeeds.\<close>

definition no_sidecar_env :: trash_env where
  "no_sidecar_env = demo_env\<lparr>open_errno := (\<lambda>p. Some EACCES)\<rparr>"

definition stuck_env :: trash_env where
  "stuck_env = no_sidecar_env\<lparr>exec_status := (\<lambda>cmd. 1)\<rparr>"

text \<open>The same as the first, where no directory is writable.\<close>

definition ro_parent_env :: trash_env where
  "ro_parent_env = demo_env\<lparr>access_errno := (\<lambda>p. Some EACCES)\<rparr>"

definition demo_fs :: fsys where
  "demo_fs = \<lparr> nodes = [''/home/u/foo.txt'' \<mapsto> ''hello''], cwd = ''/home/u'', errno = 0 \<rparr>"

text \<open>5 January 2023, 3:04:09.\<close>

definition demo_tm :: tm where
  "demo_tm = \<lparr> tm_year = 123, tm_mon = 0, tm_mday = 5, tm_hour = 3, tm_min = 4, tm_sec = 9 \<rparr>"

definition sfx :: string where
  "sfx = ''20231103120000''"

text \<open>A file name of 250 bytes, and what is left of it after the truncation.\<close>

definition long_name :: string where
  "long_name = replicate 250 (CHR ''a'')"

definition trimmed_name :: string where
  "trimmed_name = replicate 229 (CHR ''a'') @ ''~''"

definition long_fs :: fsys where
  "long_fs = \<lparr> nodes = [''/home/u/'' @ long_name \<mapsto> ''hello''], cwd = ''/home/u'', errno = 0 \<rparr>"

text \<open>The file system after the long name has been trashed.\<close>

definition long_trashed_fs :: fsys where
  "long_trashed_fs =
     long_fs\<lparr>nodes := (nodes long_fs)
       (''/home/u/'' @ long_name := None,
        ''/t/files/'' @ trimmed_name @ ''.'' @ sfx \<mapsto> ''hello'',
        ''/t/info/'' @ trimmed_name @ ''.'' @ sfx @ ''.trashinfo''
          \<mapsto> info_text (''/home/u/'' @ trimmed_name) demo_tm)\<rparr>"

text \<open>A trashed \<open>foo.txt\<close> with its sidecar, and another file at its original path.\<close>

definition sidecar_text :: string where
  "sidecar_text = ''[Trash Info]'' @ [NL] @ ''Path=/home/u/foo.txt'' @ [NL]
                  @ ''DeletionDate=2023-1-5T3:4:9'' @ [NL]"

definition trashed_fs :: fsys where
  "trashed_fs =
     \<lparr> nodes = [''/t/files/foo.txt.20231103120000'' \<mapsto> ''hello'',
                ''/t/info/foo.txt.20231103120000.trashinfo'' \<mapsto> sidecar_text,
                ''/home/u/foo.txt'' \<mapsto> ''newer''],
       cwd = ''/home/u'', errno = 0 \<rparr>"

text \<open>The same, with a sidecar that gives the original path relative to the workspace.\<close>

definition rel_sidecar_text :: string where
  "rel_sidecar_text = ''[Trash Info]'' @ [NL] @ ''Path=foo.txt'' @ [NL]
                      @ ''DeletionDate=2023-1-5T3:4:9'' @ [NL]"

definition rel_trashed_fs :: fsys where
  "rel_trashed_fs =
     \<lparr> nodes = [''/t/files/foo.txt.20231103120000'' \<mapsto> ''hello'',
                ''/t/info/foo.txt.20231103120000.trashinfo'' \<mapsto> rel_sidecar_text,
                ''/home/u/foo.txt'' \<mapsto> ''newer''],
       cwd = ''/home/u'', errno = 0 \<rparr>"

text \<open>What a call returned, and what a path holds after it.\<close>

definition status_of :: "(cint \<times> fsys) option \<Rightarrow> cint option" where
  "status_of r = map_option fst r"

definition node_after :: "(cint \<times> fsys) option \<Rightarrow> path \<Rightarrow> string option" where
  "node_after r p = (case r of None \<Rightarrow> None | Some (st, fs) \<Rightarrow> nodes fs p)"

section \<open>Properties of the sort engine\<close>

subsection \<open>Library facts\<close>

lemma sint_neg32: "sint (r::cint) \<noteq> - (2 ^ 31) \<Longrightarrow> sint (- r) = - sint r"
  using sint_range_size [of r] sint_lt [of r]
  by (simp add: sint_word_minus signed_take_bit_int_eq_self word_size)

lemma strcmp_refl: "strcmp s s = 0"
  by (induction s) simp_all

lemma strrchr_None_iff: "strrchr s c = None \<longleftrightarrow> c \<notin> set s"
  by (induction s) (auto split: option.splits)

lemma strrchr_Some_mem: "strrchr s c = Some i \<Longrightarrow> c \<in> set s"
  using strrchr_None_iff [of s c] by auto

lemma strrchr_last: "c \<notin> set x \<Longrightarrow> strrchr (p @ c # x) c = Some (length p)"
proof (induction p)
  case Nil
  then show ?case by (simp add: strrchr_None_iff [THEN iffD2])
next
  case (Cons a p)
  then show ?case by simp
qed

lemma strrchr_zero_iff:
  "strrchr s c = Some 0 \<longleftrightarrow> (s \<noteq> [] \<and> hd s = c \<and> c \<notin> set (tl s))"
  by (cases s) (auto simp: strrchr_None_iff dest: strrchr_Some_mem split: option.splits)

text \<open>\<open>strcasecmp\<close> does not see the case of ASCII letters.\<close>

lemma strcasecmp_fold:
  "map tolower_c x = map tolower_c x' \<Longrightarrow> map tolower_c y = map tolower_c y'
   \<Longrightarrow> strcasecmp x y = strcasecmp x' y'"
proof (induction x y arbitrary: x' y' rule: strcasecmp.induct)
  case 1
  then show ?case by simp
next
  case (2 b bs)
  then show ?case by (cases y') auto
next
  case (3 a as)
  then show ?case by (cases x') auto
next
  case (4 a as b bs)
  then show ?case by (cases x'; cases y') auto
qed

subsection \<open>Extensions\<close>

text \<open>A name has no extension exactly when no dot follows its first byte.\<close>

lemma ext_of_None_iff: "ext_of n = None \<longleftrightarrow> CHR ''.'' \<notin> set (tl n)"
proof (cases "strrchr n (CHR ''.'')")
  case None
  then have "CHR ''.'' \<notin> set n" by (simp add: strrchr_None_iff)
  then have "CHR ''.'' \<notin> set (tl n)" by (cases n) auto
  with None show ?thesis by (simp add: ext_of_def)
next
  case (Some i)
  show ?thesis
  proof (cases "i = 0")
    case True
    with Some have "CHR ''.'' \<notin> set (tl n)" by (simp add: strrchr_zero_iff)
    with Some True show ?thesis by (simp add: ext_of_def)
  next
    case False
    have "\<not> (CHR ''.'' \<notin> set (tl n))"
    proof
      assume a: "CHR ''.'' \<notin> set (tl n)"
      have "CHR ''.'' \<in> set n" using Some by (rule strrchr_Some_mem)
      then have "n \<noteq> []" "hd n = CHR ''.''" using a by (cases n; auto)+
      then have "strrchr n (CHR ''.'') = Some 0" using a by (simp add: strrchr_zero_iff)
      with Some False show False by simp
    qed
    with Some False show ?thesis by (simp add: ext_of_def)
  qed
qed

text \<open>The extension is what follows the last dot.\<close>

lemma ext_of_last_dot:
  "p \<noteq> [] \<Longrightarrow> CHR ''.'' \<notin> set x \<Longrightarrow> ext_of (p @ CHR ''.'' # x) = Some x"
  by (simp add: ext_of_def strrchr_last)

lemma entrycmp_SEXT:
  assumes "sort_cf cf = SEXT" and "sort_reverse cf = 0"
    and "list_dirs_first cf \<noteq> 1 \<or> dir pa = dir pb"
  shows "entrycmp env cf pa pb =
     (if sort_by_extension (name pa) (name pb) = 0 then namecmp env cf (name pa) (name pb)
      else sort_by_extension (name pa) (name pb))"
  using assms by (auto simp: entrycmp_def sort_dirs_def key_cmp_def Let_def)

subsection \<open>Reverse order\<close>

text \<open>
  C1, as stated, fails twice.  When the directories-first rule decides, entrycmp returns
  before it looks at \<open>conf.sort_reverse\<close>: a directory compared with a file gives \<open>-1\<close>
  in both orders.  And the reversal is \<open>ret - (ret * 2)\<close>: where a collation returns
  the minimum \<open>int\<close>, \<open>ret * 2\<close> leaves the range of \<open>int\<close> and the wrapped result is
  the minimum again, negative in both orders.
\<close>

theorem entrycmp_reverse_counterexample:
  "sint (entrycmp posix_env (by_name\<lparr>sort_reverse := 0\<rparr>) (entry ''d'' 1) (entry ''f'' 0)) = - 1
   \<and> sint (entrycmp posix_env (by_name\<lparr>sort_reverse := 1\<rparr>) (entry ''d'' 1) (entry ''f'' 0)) = - 1
   \<and> sint (entrycmp extreme_env (by_name\<lparr>sort_reverse := 0\<rparr>) (entry ''Ab'' 0) (entry ''ab'' 0))
       = INT_MIN
   \<and> sint (entrycmp extreme_env (by_name\<lparr>sort_reverse := 1\<rparr>) (entry ''Ab'' 0) (entry ''ab'' 0))
       = INT_MIN"
  by (simp add: entrycmp_def by_name_def entry_def sort_dirs_def key_cmp_def namecmp_def
      extreme_env_def extreme_coll_def skip_name_prefixes_def IS_DIGIT_def IS_ALPHA_def
      deref_def unicode_lead_def TOUPPER_def INT_MIN_def)

text \<open>
  C1, amended: for every two entries, every key and every collation, when the
  directories-first rule does not decide (it is off, or both entries carry the same
  \<open>dir\<close> flag) and the result in forward order is not the minimum \<open>int\<close>, the result in
  reverse order is the arithmetic negation of the result in forward order; so the two
  have opposite signs, or are both zero.
\<close>

theorem entrycmp_reverse_negates:
  assumes "list_dirs_first cf \<noteq> 1 \<or> dir pa = dir pb"
    and "sint (entrycmp env (cf\<lparr>sort_reverse := 0\<rparr>) pa pb) \<noteq> INT_MIN"
    and "r \<noteq> 0"
  shows "sint (entrycmp env (cf\<lparr>sort_reverse := r\<rparr>) pa pb)
         = - sint (entrycmp env (cf\<lparr>sort_reverse := 0\<rparr>) pa pb)"
proof -
  define ret where "ret = entrycmp env (cf\<lparr>sort_reverse := 0\<rparr>) pa pb"
  have nm: "namecmp env (cf\<lparr>sort_reverse := q\<rparr>) x y = namecmp env cf x y" for q x y
    by (simp add: namecmp_def Let_def)
  have "entrycmp env (cf\<lparr>sort_reverse := r\<rparr>) pa pb = ret - ret * 2"
    using assms(1,3) unfolding ret_def entrycmp_def
    by (auto simp: sort_dirs_def Let_def nm)
  also have "\<dots> = - ret" by simp
  finally show ?thesis
    using assms(2) sint_neg32 [of ret] by (simp add: ret_def INT_MIN_def)
qed

theorem entrycmp_reverse_negates_witness:
  "dir (entry ''b.txt'' 0) = dir (entry ''a.txt'' 0)
   \<and> sint (entrycmp posix_env (by_name\<lparr>sort_reverse := 0\<rparr>) (entry ''b.txt'' 0) (entry ''a.txt'' 0))
       \<noteq> INT_MIN
   \<and> (1::int) \<noteq> 0
   \<and> sint (entrycmp posix_env (by_name\<lparr>sort_reverse := 0\<rparr>) (entry ''b.txt'' 0) (entry ''a.txt'' 0))
       = 1
   \<and> sint (entrycmp posix_env (by_name\<lparr>sort_reverse := 1\<rparr>) (entry ''b.txt'' 0) (entry ''a.txt'' 0))
       = - 1"
proof -
  have f: "sint (entrycmp posix_env (by_name\<lparr>sort_reverse := 0\<rparr>) (entry ''b.txt'' 0)
             (entry ''a.txt'' 0)) = 1"
    by (simp add: entrycmp_def by_name_def entry_def sort_dirs_def key_cmp_def namecmp_def
        skip_name_prefixes_def IS_DIGIT_def IS_ALPHA_def deref_def unicode_lead_def
        TOUPPER_def)
  have d: "list_dirs_first by_name \<noteq> 1 \<or> dir (entry ''b.txt'' 0) = dir (entry ''a.txt'' 0)"
    by (simp add: entry_def)
  have m: "sint (entrycmp posix_env (by_name\<lparr>sort_reverse := 0\<rparr>) (entry ''b.txt'' 0)
             (entry ''a.txt'' 0)) \<noteq> INT_MIN"
    by (simp add: f INT_MIN_def)
  have o: "(1::int) \<noteq> 0" by simp
  show ?thesis
    using entrycmp_reverse_negates [OF d m o] f m by (simp add: entry_def)
qed

subsection \<open>Directories first\<close>

text \<open>
  C4: with \<open>conf.list_dirs_first\<close> set, a directory is ordered before a non-directory,
  whatever the sort key, the reverse flag and the other settings are.
\<close>

theorem entrycmp_dirs_first:
  assumes "list_dirs_first cf = 1" and "dir D \<noteq> 0" and "dir F = 0"
  shows "sint (entrycmp env cf D F) < 0 \<and> sint (entrycmp env cf F D) > 0"
  using assms by (simp add: entrycmp_def sort_dirs_def)

theorem entrycmp_dirs_first_witness:
  "list_dirs_first (by_name\<lparr>sort_cf := STSIZE, sort_reverse := 1\<rparr>) = 1
   \<and> dir (entry ''zdir'' 1) \<noteq> 0 \<and> dir (entry ''afile'' 0) = 0
   \<and> sint (entrycmp posix_env (by_name\<lparr>sort_cf := STSIZE, sort_reverse := 1\<rparr>)
             (entry ''zdir'' 1) (entry ''afile'' 0)) < 0
   \<and> sint (entrycmp posix_env (by_name\<lparr>sort_cf := STSIZE, sort_reverse := 1\<rparr>)
             (entry ''afile'' 0) (entry ''zdir'' 1)) > 0"
  using entrycmp_dirs_first [of "by_name\<lparr>sort_cf := STSIZE, sort_reverse := 1\<rparr>"
      "entry ''zdir'' 1" "entry ''afile'' 0" posix_env]
  by (simp add: by_name_def entry_def)

subsection \<open>Names\<close>

text \<open>
  C5, as stated, fails: \<open>img10\<close> and \<open>img2\<close> begin with a letter, so no digit run is
  parsed; after the equal first bytes the whole strings are compared, and \<open>img10\<close> comes
  before \<open>img2\<close>, in case-sensitive listing and, in the C locale, in case-insensitive
  listing too.
\<close>

theorem namecmp_img_counterexample:
  "sint (namecmp posix_env case_sens ''img10'' ''img2'') < 0
   \<and> sint (namecmp posix_env by_name ''img10'' ''img2'') < 0"
  by (simp add: namecmp_def case_sens_def by_name_def posix_env_def skip_name_prefixes_def
      IS_DIGIT_def IS_ALPHA_def deref_def unicode_lead_def TOUPPER_def)

text \<open>
  C5, amended: two names that, after the prefix skip, both begin with a decimal digit
  and whose leading digit runs have different values (as \<open>strtoll\<close> reads them) are
  ordered by these values.  A digit run that follows a letter is not read as a number:
  \<open>img10\<close> and \<open>img2\<close> are handed whole to \<open>strcoll\<close> (case-insensitive listing) or
  \<open>strcmp\<close> (case-sensitive listing), and \<open>strcmp\<close> puts \<open>img10\<close> first.
\<close>

theorem namecmp_leading_digits:
  assumes "IS_DIGIT (deref (skip_name_prefixes n1))"
    and "IS_DIGIT (deref (skip_name_prefixes n2))"
    and "strtoll (skip_name_prefixes n1) \<noteq> strtoll (skip_name_prefixes n2)"
  shows "namecmp env cf n1 n2 =
           (if strtoll (skip_name_prefixes n1) < strtoll (skip_name_prefixes n2) then - 1 else 1)
         \<and> namecmp env cf ''img10'' ''img2'' =
           (if case_sens_list cf = 0 then strcoll env ''img10'' ''img2''
            else strcmp ''img10'' ''img2'')
         \<and> sint (strcmp ''img10'' ''img2'') < 0"
proof -
  have "namecmp env cf n1 n2 =
           (if strtoll (skip_name_prefixes n1) < strtoll (skip_name_prefixes n2) then - 1 else 1)"
    using assms by (auto simp: namecmp_def Let_def)
  moreover have "namecmp env cf ''img10'' ''img2'' =
           (if case_sens_list cf = 0 then strcoll env ''img10'' ''img2''
            else strcmp ''img10'' ''img2'')"
    by (simp add: namecmp_def skip_name_prefixes_def IS_DIGIT_def IS_ALPHA_def deref_def
        unicode_lead_def TOUPPER_def)
  moreover have "sint (strcmp ''img10'' ''img2'') < 0"
    by simp
  ultimately show ?thesis by simp
qed

theorem namecmp_leading_digits_witness:
  "IS_DIGIT (deref (skip_name_prefixes ''.9lives''))
   \<and> IS_DIGIT (deref (skip_name_prefixes ''10things''))
   \<and> strtoll (skip_name_prefixes ''.9lives'') \<noteq> strtoll (skip_name_prefixes ''10things'')
   \<and> namecmp posix_env case_sens ''.9lives'' ''10things'' = - 1
   \<and> sint (namecmp posix_env case_sens ''img10'' ''img2'') < 0"
  using namecmp_leading_digits [of "''.9lives''" "''10things''" posix_env case_sens]
  by (simp add: skip_name_prefixes_def IS_DIGIT_def IS_ALPHA_def deref_def strtoll_def
      digit_run_def case_sens_def by_name_def LLONG_MAX_def)

subsection \<open>The extension key\<close>

text \<open>
  C9, as stated, fails: the two modifiers act under the extension key too.  In reverse
  order \<open>README\<close>, which has no extension, comes after \<open>b.gz\<close>; and with directories
  first the file \<open>README\<close> comes after the directory \<open>d.x\<close>.
\<close>

theorem entrycmp_extension_counterexample:
  "sint (entrycmp posix_env (by_ext\<lparr>sort_reverse := 1\<rparr>) (entry ''README'' 0) (entry ''b.gz'' 0))
     > 0
   \<and> sint (entrycmp posix_env by_ext (entry ''README'' 0) (entry ''d.x'' 1)) > 0"
  by (simp add: entrycmp_def by_ext_def by_name_def entry_def sort_dirs_def key_cmp_def
      sort_by_extension_def ext_of_def)

text \<open>
  C9, amended: under the extension key, in forward order (the reverse flag is off) and
  where the directories-first rule does not decide (it is off, or both entries carry the
  same \<open>dir\<close> flag), a name with no dot after its first byte is ordered before a name
  with one, whichever of the two is the first argument; two names with an extension each
  are ordered by \<open>strcasecmp\<close>, the comparison that ignores the case of letters, on
  what follows their last dots; and where that is a tie, or neither name has an
  extension, the result is that of the name comparator.
\<close>

theorem entrycmp_extension_key:
  assumes "sort_cf cf = SEXT" and "sort_reverse cf = 0"
    and "list_dirs_first cf \<noteq> 1 \<or> dir pa = dir pb"
  shows "(CHR ''.'' \<notin> set (tl (name pa)) \<and> CHR ''.'' \<in> set (tl (name pb))
            \<longrightarrow> sint (entrycmp env cf pa pb) < 0)
       \<and> (CHR ''.'' \<in> set (tl (name pa)) \<and> CHR ''.'' \<notin> set (tl (name pb))
            \<longrightarrow> sint (entrycmp env cf pa pb) > 0)
       \<and> (\<forall>p x q y. name pa = p @ CHR ''.'' # x \<and> p \<noteq> [] \<and> CHR ''.'' \<notin> set x
              \<and> name pb = q @ CHR ''.'' # y \<and> q \<noteq> [] \<and> CHR ''.'' \<notin> set y
            \<longrightarrow> entrycmp env cf pa pb =
                 (if strcasecmp x y = 0 then namecmp env cf (name pa) (name pb)
                  else strcasecmp x y))
       \<and> (CHR ''.'' \<notin> set (tl (name pa)) \<and> CHR ''.'' \<notin> set (tl (name pb))
            \<longrightarrow> entrycmp env cf pa pb = namecmp env cf (name pa) (name pb))
       \<and> (\<forall>x y x' y'. map tolower_c x = map tolower_c x' \<and> map tolower_c y = map tolower_c y'
            \<longrightarrow> strcasecmp x y = strcasecmp x' y')"
proof (intro conjI impI allI)
  assume "CHR ''.'' \<notin> set (tl (name pa)) \<and> CHR ''.'' \<in> set (tl (name pb))"
  then have "ext_of (name pa) = None" "ext_of (name pb) \<noteq> None"
    by (simp_all add: ext_of_None_iff)
  then have "sort_by_extension (name pa) (name pb) = - 1"
    by (auto simp: sort_by_extension_def)
  then show "sint (entrycmp env cf pa pb) < 0"
    by (simp add: entrycmp_SEXT [OF assms])
next
  assume "CHR ''.'' \<in> set (tl (name pa)) \<and> CHR ''.'' \<notin> set (tl (name pb))"
  then have "ext_of (name pa) \<noteq> None" "ext_of (name pb) = None"
    by (simp_all add: ext_of_None_iff)
  then have "sort_by_extension (name pa) (name pb) = 1"
    by (auto simp: sort_by_extension_def)
  then show "sint (entrycmp env cf pa pb) > 0"
    by (simp add: entrycmp_SEXT [OF assms])
next
  fix p x q y
  assume h: "name pa = p @ CHR ''.'' # x \<and> p \<noteq> [] \<and> CHR ''.'' \<notin> set x
              \<and> name pb = q @ CHR ''.'' # y \<and> q \<noteq> [] \<and> CHR ''.'' \<notin> set y"
  then have "ext_of (name pa) = Some x" "ext_of (name pb) = Some y"
    by (simp_all add: ext_of_last_dot)
  then have "sort_by_extension (name pa) (name pb) = strcasecmp x y"
    by (simp add: sort_by_extension_def)
  then show "entrycmp env cf pa pb =
      (if strcasecmp x y = 0 then namecmp env cf (name pa) (name pb) else strcasecmp x y)"
    by (simp add: entrycmp_SEXT [OF assms])
next
  assume "CHR ''.'' \<notin> set (tl (name pa)) \<and> CHR ''.'' \<notin> set (tl (name pb))"
  then have "ext_of (name pa) = None" "ext_of (name pb) = None"
    by (simp_all add: ext_of_None_iff)
  then have "sort_by_extension (name pa) (name pb) = 0"
    by (simp add: sort_by_extension_def)
  then show "entrycmp env cf pa pb = namecmp env cf (name pa) (name pb)"
    by (simp add: entrycmp_SEXT [OF assms])
next
  fix x y x' y'
  assume "map tolower_c x = map tolower_c x' \<and> map tolower_c y = map tolower_c y'"
  then show "strcasecmp x y = strcasecmp x' y'"
    using strcasecmp_fold [of x x' y y'] by blast
qed

theorem entrycmp_extension_key_witness:
  "sort_cf by_ext = SEXT \<and> sort_reverse by_ext = 0
   \<and> dir (entry ''README'' 0) = dir (entry ''b.gz'' 0)
   \<and> sint (entrycmp posix_env by_ext (entry ''README'' 0) (entry ''b.gz'' 0)) < 0
   \<and> sint (entrycmp posix_env by_ext (entry ''b.gz'' 0) (entry ''README'' 0)) > 0
   \<and> entrycmp posix_env by_ext (entry ''a.tar.gz'' 0) (entry ''b.c'' 0) = 4
   \<and> entrycmp posix_env by_ext (entry ''a.gz'' 0) (entry ''b.GZ'' 0) = - 1
   \<and> entrycmp posix_env by_ext (entry ''.profile'' 0) (entry ''Makefile'' 0) = 1"
proof -
  have k: "sort_cf by_ext = SEXT" and r: "sort_reverse by_ext = 0"
    by (simp_all add: by_ext_def by_name_def)
  have d: "list_dirs_first by_ext \<noteq> 1 \<or> dir (entry n 0) = dir (entry m 0)" for n m
    by (simp add: entry_def)
  have nm: "namecmp posix_env by_ext ''a.gz'' ''b.GZ'' = - 1"
    "namecmp posix_env by_ext ''.profile'' ''Makefile'' = 1"
    by (simp_all add: namecmp_def by_ext_def by_name_def skip_name_prefixes_def IS_DIGIT_def
        IS_ALPHA_def deref_def unicode_lead_def TOUPPER_def)
  have "sint (entrycmp posix_env by_ext (entry ''README'' 0) (entry ''b.gz'' 0)) < 0"
    using entrycmp_extension_key [OF k r d, of "''README''" "''b.gz''" posix_env,
        THEN conjunct1]
    by (simp add: entry_def)
  moreover have "sint (entrycmp posix_env by_ext (entry ''b.gz'' 0) (entry ''README'' 0)) > 0"
    using entrycmp_extension_key [OF k r d, of "''b.gz''" "''README''" posix_env,
        THEN conjunct2, THEN conjunct1]
    by (simp add: entry_def)
  moreover have "entrycmp posix_env by_ext (entry ''a.tar.gz'' 0) (entry ''b.c'' 0) = 4"
    using entrycmp_extension_key [OF k r d, of "''a.tar.gz''" "''b.c''" posix_env,
        THEN conjunct2, THEN conjunct2, THEN conjunct1, rule_format, of "''a.tar''" "''gz''" "''b''" "''c''"]
    by (simp add: entry_def tolower_c_def)
  moreover have "entrycmp posix_env by_ext (entry ''a.gz'' 0) (entry ''b.GZ'' 0) = - 1"
    using entrycmp_extension_key [OF k r d, of "''a.gz''" "''b.GZ''" posix_env,
        THEN conjunct2, THEN conjunct2, THEN conjunct1, rule_format, of "''a''" "''gz''" "''b''" "''GZ''"] nm
    by (simp add: entry_def tolower_c_def)
  moreover have "entrycmp posix_env by_ext (entry ''.profile'' 0) (entry ''Makefile'' 0) = 1"
    using entrycmp_extension_key [OF k r d, of "''.profile''" "''Makefile''" posix_env,
        THEN conjunct2, THEN conjunct2, THEN conjunct2, THEN conjunct1] nm
    by (simp add: entry_def)
  ultimately show ?thesis using k r by (simp add: entry_def)
qed

subsection \<open>compare\_strings\<close>

text \<open>
  C10: built with \<open>HAVE_STRCOLL\<close>, compare\_strings hands its second string to
  \<open>strcoll\<close> twice and never reads the first; with a collation that finds every string
  equal to itself, it returns zero for every two strings.
\<close>

theorem compare_strings_strcoll:
  assumes "\<forall>s. strcoll env s s = 0"
  shows "compare_strings True env s1 s2 = strcoll env s2 s2
         \<and> compare_strings True env s1 s2 = 0"
  using assms by (simp add: compare_strings_def)

theorem compare_strings_strcoll_witness:
  "(\<forall>s. strcoll posix_env s s = 0) \<and> compare_strings True posix_env ''abc'' ''xyz'' = 0"
proof -
  have h: "\<forall>s. strcoll posix_env s s = 0" by (simp add: posix_env_def strcmp_refl)
  show ?thesis using h compare_strings_strcoll [OF h, of "''abc''" "''xyz''"] by simp
qed

text \<open>The other build does tell strings apart.\<close>

lemma compare_strings_no_strcoll_distinguishes:
  "sint (compare_strings False posix_env ''abc'' ''xyz'') < 0"
  by (simp add: compare_strings_def deref_def)


section \<open>Properties of the trash manager\<close>

subsection \<open>The concrete environments\<close>

lemma demo_env_sel:
  "trash_files_dir demo_env = ''/t/files''" "trash_info_dir demo_env = ''/t/info''"
  "workspace_path demo_env = Some ''/home/u''" "chdir_errno demo_env p = None"
  "scandir_names demo_env fs p = Some []" "rename_errno demo_env old new = None"
  "exec_status demo_env cmd = 0" "open_errno demo_env p = None"
  "access_errno demo_env p = None" "preflight demo_env p = 0"
  "url_encode demo_env s = Some s" "url_decode demo_env s = Some s"
  by (simp_all add: demo_env_def)

lemma no_sidecar_env_sel:
  "trash_files_dir no_sidecar_env = ''/t/files''" "trash_info_dir no_sidecar_env = ''/t/info''"
  "workspace_path no_sidecar_env = Some ''/home/u''"
  "rename_errno no_sidecar_env old new = None"
  "exec_status no_sidecar_env cmd = 0" "open_errno no_sidecar_env p = Some EACCES"
  "preflight no_sidecar_env p = 0"
  by (simp_all add: no_sidecar_env_def demo_env_def)

lemma stuck_env_sel:
  "trash_files_dir stuck_env = ''/t/files''" "trash_info_dir stuck_env = ''/t/info''"
  "workspace_path stuck_env = Some ''/home/u''"
  "rename_errno stuck_env old new = None"
  "exec_status stuck_env cmd = 1" "open_errno stuck_env p = Some EACCES"
  "preflight stuck_env p = 0"
  by (simp_all add: stuck_env_def no_sidecar_env_def demo_env_def)

lemma ro_parent_env_sel:
  "trash_files_dir ro_parent_env = ''/t/files''" "trash_info_dir ro_parent_env = ''/t/info''"
  "access_errno ro_parent_env p = Some EACCES" "url_decode ro_parent_env s = Some s"
  by (simp_all add: ro_parent_env_def demo_env_def)

lemma errno_val_nonzero: "errno_val e \<noteq> 0"
  by (cases e) simp_all

lemma deref_Cons: "deref (c # s) = of_char c"
  by (simp add: deref_def)

lemma resolve_errno [simp]: "resolve (fs\<lparr>errno := x\<rparr>) p = resolve fs p"
  by (simp add: resolve_def)

lemma nodes_rename_demo:
  "([''/home/u/foo.txt'' \<mapsto> ''hello''])(''/home/u/foo.txt'' := None, p \<mapsto> b) = [p \<mapsto> b]"
  by (rule ext) simp

subsection \<open>The parts of trash\_file\<close>

lemma trash_file_moved:
  assumes "nodes fs (resolve fs file) \<noteq> None"
    and "trash_prepare env suffix file = Some (Inr (file', tmpfile, file_suffix))"
    and "trash_move env file' (trash_files_dir env @ ''/'' @ file_suffix) fs = (EXIT_SUCCESS, fs1)"
  shows "trash_file env suffix t file fs = Some (trash_info env file_suffix tmpfile t fs1)"
  using assms by (auto simp: trash_file_def stat_c_def)

lemma trash_info_open_fails:
  assumes "open_errno env (trash_info_dir env @ ''/'' @ file_suffix @ ''.trashinfo'') = Some e"
  shows "trash_info env file_suffix tmpfile t fs =
           launch_execv env (Rm [trash_files_dir env @ ''/'' @ file_suffix])
             (fs\<lparr>errno := errno_val e\<rparr>)"
  using assms by (simp add: trash_info_def open_fwrite_def del_trash_file_and_exit_def)


text \<open>What the truncation leaves of a name that is too long.\<close>

lemma trim_filename_long:
  assumes "length filename + 1 + length suffix + length ''.trashinfo'' > NAME_MAX"
    and "length suffix + 12 \<le> NAME_MAX"
  shows "trim_filename filename suffix
           = Some (take (NAME_MAX - length suffix - 12) filename @ ''~'')"
  using assms by (auto simp: trim_filename_def Let_def nat_diff_distrib)





text \<open>With the sidecar open and the path encoded, the sidecar holds the text of the format.\<close>

lemma trash_info_writes:
  assumes "open_errno env (trash_info_dir env @ ''/'' @ file_suffix @ ''.trashinfo'') = None"
    and "url_encode env tmpfile = Some url_str"
  shows "trash_info env file_suffix tmpfile t fs =
           (EXIT_SUCCESS,
            fs\<lparr>nodes := (nodes fs)
                 (resolve fs (trash_info_dir env @ ''/'' @ file_suffix @ ''.trashinfo'')
                    \<mapsto> info_text url_str t)\<rparr>)"
  using assms by (simp add: trash_info_def open_fwrite_def fprintf_def resolve_def)

text \<open>The fields of the date are printed without padding.\<close>

lemma info_text_demo:
  "info_text u demo_tm =
     ''[Trash Info]'' @ [NL] @ ''Path='' @ u @ [NL] @ ''DeletionDate=2023-1-5T3:4:9'' @ [NL]"
  by (simp add: info_text_def demo_tm_def printf_d_def dec_nat.simps dec_digit_def)

text \<open>The trashed name is the trimmed file name, a dot and the suffix.\<close>

lemma trash_prepare_names:
  assumes "trash_prepare env suffix file = Some (Inr (file', tmpfile, file_suffix))"
  shows "\<exists>dirpart filename trimmed.
           trim_filename filename suffix = Some trimmed
           \<and> tmpfile = dirpart @ trimmed \<and> file_suffix = trimmed @ ''.'' @ suffix"
  using assms
  by (auto simp: trash_prepare_def Let_def split: option.splits prod.splits if_splits)

lemma prepare_foo_no_sidecar:
  "trash_prepare no_sidecar_env sfx ''foo.txt''
     = Some (Inr (''foo.txt'', ''/home/u/foo.txt'', ''foo.txt.20231103120000''))"
  by (simp add: trash_prepare_def no_sidecar_env_sel deref_def wx_parent_check_def
      split_name_def trim_filename_def NAME_MAX_def sfx_def)

lemma prepare_foo_stuck:
  "trash_prepare stuck_env sfx ''foo.txt''
     = Some (Inr (''foo.txt'', ''/home/u/foo.txt'', ''foo.txt.20231103120000''))"
  by (simp add: trash_prepare_def stuck_env_sel deref_def wx_parent_check_def
      split_name_def trim_filename_def NAME_MAX_def sfx_def)

subsection \<open>The working directory\<close>

text \<open>
  C2 holds of the paths of trash\_clear that reach its second \<open>xchdir\<close>: with names
  scanned and both changes of directory succeeding, the working directory at the end is
  the workspace's.
\<close>

lemma clear_loop_cwd: "cwd (snd (snd (clear_loop env ns (r, x, fs)))) = cwd fs"
proof (induction ns arbitrary: r x fs)
  case Nil
  then show ?case by simp
next
  case (Cons n ns)
  have "cwd (snd (launch_execv env c fs)) = cwd fs" for c
    by (simp add: launch_execv_def split: command.splits option.splits)
  with Cons show ?case by (simp add: Let_def split: prod.splits) (metis snd_conv)
qed

lemma trash_clear_nonempty_restores:
  assumes "chdir_errno env (trash_files_dir env) = None"
    and "scandir_names env (fs\<lparr>cwd := resolve fs (trash_files_dir env)\<rparr>) (trash_files_dir env)
         = Some (n # ns)"
    and "workspace_path env = Some w" and "chdir_errno env w = None" and "deref w = 47"
  shows "\<exists>st fs'. trash_clear env fs = Some (st, fs') \<and> cwd fs' = w"
  using assms clear_loop_cwd [of env "n # ns" EXIT_SUCCESS EXIT_SUCCESS]
  by (auto simp: trash_clear_def xchdir_def resolve_def split: prod.splits)

text \<open>
  C2: the code does not do what the claim says.  With an empty trash can, trash\_clear
  returns success and list\_trashed\_files returns \<open>-1\<close> right after the scan, and the
  working directory stays the trash directory \<open>/t/files\<close>; it was \<open>/home/u\<close>.
\<close>

theorem trash_clear_empty_cwd:
  "trash_clear demo_env demo_fs = Some (EXIT_SUCCESS, demo_fs\<lparr>cwd := ''/t/files''\<rparr>)
   \<and> list_trashed_files demo_env demo_fs = (- 1, demo_fs\<lparr>cwd := ''/t/files''\<rparr>)
   \<and> cwd demo_fs = ''/home/u''"
  by (simp add: trash_clear_def list_trashed_files_def xchdir_def demo_env_sel demo_fs_def
      resolve_def deref_def)

subsection \<open>A sidecar that cannot be opened\<close>

text \<open>
  C3, as stated, fails twice.  Where the sidecar cannot be opened and the removal of the
  moved file succeeds, trash\_file returns the status of the removal, which is success;
  the file is then neither at its place nor in the trash can.  Where the removal fails
  too, the entry stays in \<open>files/\<close> with no sidecar.
\<close>

theorem trash_file_sidecar_counterexample:
  "status_of (trash_file no_sidecar_env sfx demo_tm ''foo.txt'' demo_fs) = Some EXIT_SUCCESS
   \<and> node_after (trash_file no_sidecar_env sfx demo_tm ''foo.txt'' demo_fs) ''/home/u/foo.txt''
       = None
   \<and> node_after (trash_file no_sidecar_env sfx demo_tm ''foo.txt'' demo_fs)
        ''/t/files/foo.txt.20231103120000'' = None
   \<and> status_of (trash_file stuck_env sfx demo_tm ''foo.txt'' demo_fs) = Some 1
   \<and> node_after (trash_file stuck_env sfx demo_tm ''foo.txt'' demo_fs)
        ''/t/files/foo.txt.20231103120000'' = Some ''hello''
   \<and> node_after (trash_file stuck_env sfx demo_tm ''foo.txt'' demo_fs)
        ''/t/info/foo.txt.20231103120000.trashinfo'' = None"
  by (simp add: trash_file_def prepare_foo_no_sidecar prepare_foo_stuck stat_c_def resolve_def
      deref_def demo_fs_def trash_move_def renameat_def trash_info_def open_fwrite_def
      del_trash_file_and_exit_def launch_execv_def status_of_def node_after_def
      EXIT_SUCCESS_def no_sidecar_env_sel stuck_env_sel)

text \<open>
  C3, amended: for every call of trash\_file in which the file has been moved into
  \<open>files/\<close> and the sidecar then cannot be opened for writing, the removal of the moved
  file is run and no sidecar is created.  Where the removal succeeds, the entry is gone
  from \<open>files/\<close> and nothing else has changed since the move.  Where the removal fails,
  the call returns its status, which is not zero, and the entry stays in \<open>files/\<close>
  without a sidecar.
\<close>

theorem trash_file_sidecar_open_fails:
  assumes "nodes fs (resolve fs file) \<noteq> None"
    and "trash_prepare env suffix file = Some (Inr (file', tmpfile, file_suffix))"
    and "trash_move env file' (trash_files_dir env @ ''/'' @ file_suffix) fs = (EXIT_SUCCESS, fs1)"
    and "open_errno env (trash_info_dir env @ ''/'' @ file_suffix @ ''.trashinfo'') = Some e"
  shows "\<exists>r fs'. trash_file env suffix t file fs = Some (r, fs')
           \<and> (exec_status env (Rm [trash_files_dir env @ ''/'' @ file_suffix]) = 0
                \<longrightarrow> nodes fs' = (nodes fs1)
                      (resolve fs1 (trash_files_dir env @ ''/'' @ file_suffix) := None))
           \<and> (exec_status env (Rm [trash_files_dir env @ ''/'' @ file_suffix]) \<noteq> 0
                \<longrightarrow> r = exec_status env (Rm [trash_files_dir env @ ''/'' @ file_suffix])
                    \<and> nodes fs' = nodes fs1)"
  unfolding trash_file_moved [OF assms(1-3)] trash_info_open_fails [OF assms(4)]
  by (auto simp: launch_execv_def)

theorem trash_file_sidecar_open_fails_witness:
  "nodes demo_fs (resolve demo_fs ''foo.txt'') \<noteq> None
   \<and> trash_prepare no_sidecar_env sfx ''foo.txt''
       = Some (Inr (''foo.txt'', ''/home/u/foo.txt'', ''foo.txt.20231103120000''))
   \<and> trash_move no_sidecar_env ''foo.txt''
        (trash_files_dir no_sidecar_env @ ''/'' @ ''foo.txt.20231103120000'') demo_fs
       = (EXIT_SUCCESS, demo_fs\<lparr>nodes := [''/t/files/foo.txt.20231103120000'' \<mapsto> ''hello'']\<rparr>)
   \<and> open_errno no_sidecar_env
        (trash_info_dir no_sidecar_env @ ''/'' @ ''foo.txt.20231103120000'' @ ''.trashinfo'')
       = Some EACCES
   \<and> exec_status no_sidecar_env
        (Rm [trash_files_dir no_sidecar_env @ ''/'' @ ''foo.txt.20231103120000'']) = 0
   \<and> node_after (trash_file no_sidecar_env sfx demo_tm ''foo.txt'' demo_fs)
        ''/t/files/foo.txt.20231103120000'' = None
   \<and> exec_status stuck_env
        (Rm [trash_files_dir stuck_env @ ''/'' @ ''foo.txt.20231103120000'']) = 1
   \<and> status_of (trash_file stuck_env sfx demo_tm ''foo.txt'' demo_fs) = Some 1
   \<and> node_after (trash_file stuck_env sfx demo_tm ''foo.txt'' demo_fs)
        ''/t/files/foo.txt.20231103120000'' = Some ''hello''"
proof -
  have a: "nodes demo_fs (resolve demo_fs ''foo.txt'') \<noteq> None"
    by (simp add: demo_fs_def resolve_def deref_def)
  have m: "trash_move no_sidecar_env ''foo.txt''
        (trash_files_dir no_sidecar_env @ ''/'' @ ''foo.txt.20231103120000'') demo_fs
       = (EXIT_SUCCESS, demo_fs\<lparr>nodes := [''/t/files/foo.txt.20231103120000'' \<mapsto> ''hello'']\<rparr>)"
    by (simp add: trash_move_def renameat_def no_sidecar_env_sel demo_fs_def resolve_def
        deref_def EXIT_SUCCESS_def nodes_rename_demo)
  have m': "trash_move stuck_env ''foo.txt''
        (trash_files_dir stuck_env @ ''/'' @ ''foo.txt.20231103120000'') demo_fs
       = (EXIT_SUCCESS, demo_fs\<lparr>nodes := [''/t/files/foo.txt.20231103120000'' \<mapsto> ''hello'']\<rparr>)"
    by (simp add: trash_move_def renameat_def stuck_env_sel demo_fs_def resolve_def
        deref_def EXIT_SUCCESS_def nodes_rename_demo)
  have o: "open_errno no_sidecar_env
        (trash_info_dir no_sidecar_env @ ''/'' @ ''foo.txt.20231103120000'' @ ''.trashinfo'')
       = Some EACCES"
    by (simp add: no_sidecar_env_sel)
  have o': "open_errno stuck_env
        (trash_info_dir stuck_env @ ''/'' @ ''foo.txt.20231103120000'' @ ''.trashinfo'')
       = Some EACCES"
    by (simp add: stuck_env_sel)
  have x: "exec_status no_sidecar_env
        (Rm [trash_files_dir no_sidecar_env @ ''/'' @ ''foo.txt.20231103120000'']) = 0"
    by (simp add: no_sidecar_env_sel)
  have x': "exec_status stuck_env
        (Rm [trash_files_dir stuck_env @ ''/'' @ ''foo.txt.20231103120000'']) = 1"
    by (simp add: stuck_env_sel)
  from trash_file_sidecar_open_fails [OF a prepare_foo_no_sidecar m o, of demo_tm] x
  have g: "node_after (trash_file no_sidecar_env sfx demo_tm ''foo.txt'' demo_fs)
        ''/t/files/foo.txt.20231103120000'' = None"
    by (auto simp: node_after_def no_sidecar_env_sel demo_fs_def resolve_def deref_def)
  from trash_file_sidecar_open_fails [OF a prepare_foo_stuck m' o', of demo_tm] x'
  have g': "status_of (trash_file stuck_env sfx demo_tm ''foo.txt'' demo_fs) = Some 1
      \<and> node_after (trash_file stuck_env sfx demo_tm ''foo.txt'' demo_fs)
        ''/t/files/foo.txt.20231103120000'' = Some ''hello''"
    by (auto simp: node_after_def status_of_def stuck_env_sel demo_fs_def)
  from a prepare_foo_no_sidecar m o x g x' g' show ?thesis by simp
qed

subsection \<open>A long file name\<close>

lemma deref_long_name: "deref long_name = 97"
proof -
  have h: "long_name = CHR ''a'' # replicate 249 (CHR ''a'')"
    unfolding long_name_def by (simp add: replicate_Suc [symmetric] del: replicate_Suc)
  show ?thesis unfolding deref_def h by simp
qed

lemma split_long_name:
  "split_name (''/home/u'' @ ''/'' @ long_name) = Some (''/home/u/'', long_name)"
proof -
  have "strrchr (''/home/u'' @ CHR ''/'' # long_name) (CHR ''/'') = Some (length ''/home/u'')"
    by (rule strrchr_last) (simp add: long_name_def)
  then show ?thesis by (simp add: split_name_def long_name_def)
qed

lemma trim_long_name: "trim_filename long_name sfx = Some trimmed_name"
  by (simp add: trim_filename_def long_name_def sfx_def NAME_MAX_def trimmed_name_def)

lemma prepare_long_name:
  "trash_prepare demo_env sfx long_name =
     Some (Inr (long_name, ''/home/u/'' @ trimmed_name, trimmed_name @ ''.'' @ sfx))"
proof -
  have l: "long_name \<noteq> []" "last long_name = CHR ''a''" by (simp_all add: long_name_def)
  show ?thesis
    using split_long_name
    by (simp add: trash_prepare_def demo_env_sel deref_long_name wx_parent_check_def l
        trim_long_name)
qed


text \<open>Trashing the long name, given relative to the workspace, with every call succeeding.\<close>

lemma trash_file_long_name_result:
  "trash_file demo_env sfx demo_tm long_name long_fs = Some (EXIT_SUCCESS, long_trashed_fs)"
proof -
  have a: "nodes long_fs (resolve long_fs long_name) \<noteq> None"
    by (simp add: long_fs_def resolve_def deref_long_name)
  have m: "trash_move demo_env long_name
             (trash_files_dir demo_env @ ''/'' @ trimmed_name @ ''.'' @ sfx) long_fs
           = (EXIT_SUCCESS, long_fs\<lparr>nodes := (nodes long_fs)
                (''/home/u/'' @ long_name := None,
                 ''/t/files/'' @ trimmed_name @ ''.'' @ sfx \<mapsto> ''hello'')\<rparr>)"
    by (simp add: trash_move_def renameat_def demo_env_sel long_fs_def resolve_def
        deref_long_name deref_Cons EXIT_SUCCESS_def)
  show ?thesis
    unfolding trash_file_moved [OF a prepare_long_name m] long_trashed_fs_def
    by (simp add: trash_info_writes demo_env_sel resolve_def deref_Cons long_fs_def)
qed

subsection \<open>The length of the trashed name\<close>

text \<open>
  The truncation alone: where the file name, a dot, the suffix and \<open>.trashinfo\<close>
  together are longer than \<open>NAME_MAX\<close>, what is kept is a proper prefix of the file
  name followed by \<open>~\<close>.
\<close>

lemma trim_filename_fits:
  assumes "length filename + 1 + length suffix + length ''.trashinfo'' > NAME_MAX"
    and "length suffix + 12 \<le> NAME_MAX"
  shows "\<exists>stem. trim_filename filename suffix = Some (stem @ ''~'')
           \<and> stem = take (length stem) filename
           \<and> length (stem @ ''~'') < length filename
           \<and> length (stem @ ''~'') + length suffix + length ''.trashinfo'' \<le> NAME_MAX
           \<and> length (stem @ ''~'' @ ''.'' @ suffix @ ''.trashinfo'') = NAME_MAX"
proof -
  define k where "k = NAME_MAX - length suffix - 12"
  have t: "trim_filename filename suffix = Some (take k filename @ ''~'')"
    using trim_filename_long [OF assms] by (simp add: k_def)
  have l: "length (take k filename) = k"
    using assms by (simp add: k_def NAME_MAX_def)
  show ?thesis
  proof (intro exI conjI)
    show "trim_filename filename suffix = Some (take k filename @ ''~'')" by (rule t)
    show "take k filename = take (length (take k filename)) filename" by (simp only: l)
    show "length (take k filename @ ''~'') < length filename"
      using assms l by (simp add: k_def NAME_MAX_def)
    show "length (take k filename @ ''~'') + length suffix + length ''.trashinfo'' \<le> NAME_MAX"
      using assms l by (simp add: k_def NAME_MAX_def)
    show "length (take k filename @ ''~'' @ ''.'' @ suffix @ ''.trashinfo'') = NAME_MAX"
      using assms l by (simp add: k_def NAME_MAX_def)
  qed
qed



subsection \<open>Restoring onto an existing file\<close>

lemma scan_sidecar_text:
  "scan_path (fgets_lines sidecar_text) None = Some (''/home/u/foo.txt'' @ [NL])"
  by (simp add: sidecar_text_def NL_def)

lemma orig_path_sidecar_text:
  "url_decode env ''/home/u/foo.txt'' = Some ''/home/u/foo.txt''
   \<Longrightarrow> orig_path_of env sidecar_text = Inr ''/home/u/foo.txt''"
  by (simp add: orig_path_of_def scan_sidecar_text)

lemma parent_of_demo: "parent_of ''/home/u/foo.txt'' = Some ''/home/u''"
  by (simp add: parent_of_def strbfrlst_def)

lemma orig_path_rel_sidecar_text:
  "orig_path_of demo_env rel_sidecar_text = Inr ''foo.txt''"
  by (simp add: orig_path_of_def rel_sidecar_text_def NL_def demo_env_sel)

lemma parent_of_rel: "parent_of ''foo.txt'' = None"
  by (simp add: parent_of_def strbfrlst_def deref_def)

text \<open>
  C7, as stated, fails: the parent directory is checked before the destination, so
  where the original path exists and its parent directory is not writable, untrash\_file
  returns the error of \<open>access\<close>, \<open>EACCES\<close>, and not \<open>EEXIST\<close>.
\<close>

theorem untrash_file_exists_counterexample:
  "nodes trashed_fs ''/home/u/foo.txt'' = Some ''newer''
   \<and> orig_path_of ro_parent_env sidecar_text = Inr ''/home/u/foo.txt''
   \<and> fst (untrash_file ro_parent_env (Some ''foo.txt.20231103120000'') trashed_fs)
       = errno_val EACCES
   \<and> errno_val EACCES \<noteq> errno_val EEXIST"
  by (simp add: untrash_file_def ro_parent_env_sel trashed_fs_def resolve_def deref_def
      orig_path_sidecar_text parent_of_demo)

lemma untrash_file_unfold:
  assumes "nodes fs (resolve fs (trash_info_dir env @ ''/'' @ file @ ''.trashinfo'')) = Some txt"
    and "orig_path_of env txt = Inr dest"
    and "nodes fs (resolve fs dest) \<noteq> None"
  shows "untrash_file env (Some file) fs =
           (case parent_of dest of
              None \<Rightarrow> (EXIT_FAILURE, fs)
            | Some parent \<Rightarrow>
                (case access_errno env parent of
                   Some e \<Rightarrow> (errno_val e, fs\<lparr>errno := errno_val e\<rparr>)
                 | None \<Rightarrow> (errno_val EEXIST, fs)))"
  using assms
  by (auto simp: untrash_file_def stat_c_def Let_def split: option.splits)

text \<open>
  C7, amended: for every call of untrash\_file on an item whose sidecar gives an original
  path (percent-decoded) that already exists, the call fails (its status is not zero),
  nothing is overwritten, and the entry in \<open>files/\<close> and the sidecar stay as they are:
  no file and not the working directory has changed.  Where the parent directory of the
  original path passes the \<open>access\<close> check, the status is \<open>EEXIST\<close>; where it fails the
  check, the status is the error number of the check; where the path has no parent
  directory to check (there is no slash in it), the status is \<open>EXIT_FAILURE\<close>.
\<close>

theorem untrash_file_destination_exists:
  assumes "nodes fs (resolve fs (trash_info_dir env @ ''/'' @ file @ ''.trashinfo'')) = Some txt"
    and "orig_path_of env txt = Inr dest"
    and "nodes fs (resolve fs dest) \<noteq> None"
  shows "fst (untrash_file env (Some file) fs) \<noteq> 0
         \<and> nodes (snd (untrash_file env (Some file) fs)) = nodes fs
         \<and> cwd (snd (untrash_file env (Some file) fs)) = cwd fs
         \<and> (\<forall>parent. parent_of dest = Some parent \<and> access_errno env parent = None
              \<longrightarrow> untrash_file env (Some file) fs = (errno_val EEXIST, fs))
         \<and> (\<forall>parent e. parent_of dest = Some parent \<and> access_errno env parent = Some e
              \<longrightarrow> fst (untrash_file env (Some file) fs) = errno_val e)
         \<and> (parent_of dest = None
              \<longrightarrow> fst (untrash_file env (Some file) fs) = EXIT_FAILURE)"
  unfolding untrash_file_unfold [OF assms]
  by (auto simp: errno_val_nonzero EXIT_FAILURE_def split: option.splits)

theorem untrash_file_destination_exists_witness:
  "nodes trashed_fs (resolve trashed_fs
      (trash_info_dir demo_env @ ''/'' @ ''foo.txt.20231103120000'' @ ''.trashinfo''))
     = Some sidecar_text
   \<and> orig_path_of demo_env sidecar_text = Inr ''/home/u/foo.txt''
   \<and> nodes trashed_fs (resolve trashed_fs ''/home/u/foo.txt'') \<noteq> None
   \<and> parent_of ''/home/u/foo.txt'' = Some ''/home/u''
   \<and> access_errno demo_env ''/home/u'' = None
   \<and> untrash_file demo_env (Some ''foo.txt.20231103120000'') trashed_fs
       = (errno_val EEXIST, trashed_fs)
   \<and> access_errno ro_parent_env ''/home/u'' = Some EACCES
   \<and> fst (untrash_file ro_parent_env (Some ''foo.txt.20231103120000'') trashed_fs)
       = errno_val EACCES
   \<and> nodes (snd (untrash_file ro_parent_env (Some ''foo.txt.20231103120000'') trashed_fs))
       = nodes trashed_fs
   \<and> nodes rel_trashed_fs (resolve rel_trashed_fs
      (trash_info_dir demo_env @ ''/'' @ ''foo.txt.20231103120000'' @ ''.trashinfo''))
     = Some rel_sidecar_text
   \<and> orig_path_of demo_env rel_sidecar_text = Inr ''foo.txt''
   \<and> nodes rel_trashed_fs (resolve rel_trashed_fs ''foo.txt'') \<noteq> None
   \<and> parent_of ''foo.txt'' = None
   \<and> fst (untrash_file demo_env (Some ''foo.txt.20231103120000'') rel_trashed_fs)
       = EXIT_FAILURE"
proof -
  have a: "nodes trashed_fs (resolve trashed_fs
      (trash_info_dir demo_env @ ''/'' @ ''foo.txt.20231103120000'' @ ''.trashinfo''))
     = Some sidecar_text"
    by (simp add: trashed_fs_def resolve_def deref_def demo_env_sel)
  have a': "nodes trashed_fs (resolve trashed_fs
      (trash_info_dir ro_parent_env @ ''/'' @ ''foo.txt.20231103120000'' @ ''.trashinfo''))
     = Some sidecar_text"
    by (simp add: trashed_fs_def resolve_def deref_def ro_parent_env_sel)
  have a'': "nodes rel_trashed_fs (resolve rel_trashed_fs
      (trash_info_dir demo_env @ ''/'' @ ''foo.txt.20231103120000'' @ ''.trashinfo''))
     = Some rel_sidecar_text"
    by (simp add: rel_trashed_fs_def resolve_def deref_def demo_env_sel)
  have b: "orig_path_of demo_env sidecar_text = Inr ''/home/u/foo.txt''"
    by (simp add: orig_path_sidecar_text demo_env_sel)
  have b': "orig_path_of ro_parent_env sidecar_text = Inr ''/home/u/foo.txt''"
    by (simp add: orig_path_sidecar_text ro_parent_env_sel)
  have c: "nodes trashed_fs (resolve trashed_fs ''/home/u/foo.txt'') \<noteq> None"
    by (simp add: trashed_fs_def resolve_def deref_def)
  have c'': "nodes rel_trashed_fs (resolve rel_trashed_fs ''foo.txt'') \<noteq> None"
    by (simp add: rel_trashed_fs_def resolve_def deref_def)
  have d: "access_errno demo_env ''/home/u'' = None" by (simp add: demo_env_sel)
  have d': "access_errno ro_parent_env ''/home/u'' = Some EACCES"
    by (simp add: ro_parent_env_sel)
  from untrash_file_destination_exists [OF a b c] parent_of_demo d
  have r1: "untrash_file demo_env (Some ''foo.txt.20231103120000'') trashed_fs
       = (errno_val EEXIST, trashed_fs)"
    by blast
  from untrash_file_destination_exists [OF a' b' c] parent_of_demo d'
  have r2: "fst (untrash_file ro_parent_env (Some ''foo.txt.20231103120000'') trashed_fs)
       = errno_val EACCES
     \<and> nodes (snd (untrash_file ro_parent_env (Some ''foo.txt.20231103120000'') trashed_fs))
       = nodes trashed_fs"
    by blast
  from untrash_file_destination_exists [OF a'' orig_path_rel_sidecar_text c''] parent_of_rel
  have r3: "fst (untrash_file demo_env (Some ''foo.txt.20231103120000'') rel_trashed_fs)
       = EXIT_FAILURE"
    by blast
  from a b c d d' r1 r2 a'' orig_path_rel_sidecar_text c'' parent_of_rel r3 parent_of_demo
  show ?thesis by simp
qed

subsection \<open>The text of the sidecar\<close>

text \<open>
  C8: the code does not do what the claim says.  The sidecar has the three lines and
  the date is printed without padding, but the path is encoded after the file name has
  been truncated in place: trashing the 250-byte name, given relative to \<open>/home/u\<close>,
  succeeds, moves the file to the truncated name in \<open>files/\<close>, and writes a \<open>Path=\<close>
  line with the truncated name, which is not the original path.
\<close>

theorem trash_file_long_name_path:
  "status_of (trash_file demo_env sfx demo_tm long_name long_fs) = Some EXIT_SUCCESS
   \<and> node_after (trash_file demo_env sfx demo_tm long_name long_fs)
        (''/t/files/'' @ trimmed_name @ ''.'' @ sfx) = Some ''hello''
   \<and> node_after (trash_file demo_env sfx demo_tm long_name long_fs)
        (''/t/info/'' @ trimmed_name @ ''.'' @ sfx @ ''.trashinfo'')
       = Some (''[Trash Info]'' @ [NL] @ ''Path='' @ ''/home/u/'' @ trimmed_name @ [NL]
               @ ''DeletionDate=2023-1-5T3:4:9'' @ [NL])
   \<and> ''/home/u/'' @ trimmed_name \<noteq> ''/home/u/'' @ long_name"
proof -
  have n: "length (''/home/u/'' @ trimmed_name) \<noteq> length (''/home/u/'' @ long_name)"
    by (simp add: trimmed_name_def long_name_def)
  then have "''/home/u/'' @ trimmed_name \<noteq> ''/home/u/'' @ long_name" by metis
  then show ?thesis
    unfolding trash_file_long_name_result
    by (simp add: status_of_def node_after_def long_trashed_fs_def info_text_demo sfx_def)
qed

text \<open>
  Where the name needs no truncation, the sidecar of a trashed file is as C8 says:
  \<open>foo.txt\<close>, trashed from \<open>/home/u\<close>.
\<close>

lemma trash_file_short_name_sidecar:
  "status_of (trash_file demo_env sfx demo_tm ''foo.txt'' demo_fs) = Some EXIT_SUCCESS
   \<and> node_after (trash_file demo_env sfx demo_tm ''foo.txt'' demo_fs)
        ''/t/info/foo.txt.20231103120000.trashinfo''
       = Some (''[Trash Info]'' @ [NL] @ ''Path=/home/u/foo.txt'' @ [NL]
               @ ''DeletionDate=2023-1-5T3:4:9'' @ [NL])"
proof -
  have p: "trash_prepare demo_env sfx ''foo.txt''
     = Some (Inr (''foo.txt'', ''/home/u/foo.txt'', ''foo.txt.20231103120000''))"
    by (simp add: trash_prepare_def demo_env_sel deref_def wx_parent_check_def
        split_name_def trim_filename_def NAME_MAX_def sfx_def)
  show ?thesis
    by (simp add: trash_file_def p stat_c_def resolve_def deref_def demo_fs_def trash_move_def
        renameat_def trash_info_def open_fwrite_def fprintf_def info_text_demo
        status_of_def node_after_def EXIT_SUCCESS_def demo_env_sel)
qed

end
